theory Spec2Isabelle
  imports Complex_Main
begin

section \<open>The API service client and the connectivity check component\<close>

text \<open>
  The development covers \<^verbatim>\<open>frontend/src/services/api.ts\<close> (class \<^verbatim>\<open>ApiService\<close>) and the
  component \<^verbatim>\<open>ApiTestComponent\<close> that calls it. Asynchronous calls are modelled by
  their settlement: a promise that rejects is \<open>Inl\<close> of the thrown value, one that
  fulfils is \<open>Inr\<close> of its value, and one that never settles is \<open>None\<close>.
\<close>

subsection \<open>Values of the platform\<close>

text \<open>
  A JavaScript \<^verbatim>\<open>throw\<close> accepts any value. \<open>Error m\<close> is an object for which
  \<^verbatim>\<open>instanceof Error\<close> holds, with \<^verbatim>\<open>message\<close> \<open>m\<close>; \<open>NonError v\<close> is any other value.
\<close>

datatype 'v thrown = Error string | NonError 'v

text \<open>
  Decimal digits of a natural number, as a template literal or a JSX expression prints
  an integer (the status code, the floored uptime). JavaScript prints an integer-valued
  number this way as long as its magnitude is below \<open>2 ^ 53\<close>.
\<close>

definition digit :: "nat \<Rightarrow> char" where
  "digit d = ''0123456789'' ! (d mod 10)"

function show_nat :: "nat \<Rightarrow> string" where
  "show_nat n = (if n < 10 then [digit n] else show_nat (n div 10) @ [digit n])"
  by pat_completeness auto
termination
  by (relation "measure (\<lambda>n. n)") auto

declare show_nat.simps [simp del]

definition show_int :: "int \<Rightarrow> string" where
  "show_int i = (if i < 0 then CHR ''-'' # show_nat (nat (- i)) else show_nat (nat i))"

text \<open>Reading a decimal numeral back, to state that \<open>show_nat\<close> loses nothing.\<close>

fun read_nat :: "nat \<Rightarrow> string \<Rightarrow> nat" where
  "read_nat acc [] = acc"
| "read_nat acc (c # cs) = read_nat (10 * acc + (of_char c - 48)) cs"

subsection \<open>Data of \<^verbatim>\<open>api.ts\<close>\<close>

text \<open>
  The three interfaces. A JSON number that is finite is a rational; \<^verbatim>\<open>NaN\<close> and the
  infinities, which JSON cannot write, are not modelled.
\<close>

record ApiResponse =
  message :: string
  version :: string
  timestamp :: string

record HealthResponse =
  status :: string
  timestamp :: string
  uptime :: rat

text \<open>
  TypeScript's types are erased when the program runs and \<^verbatim>\<open>response.json()\<close> yields
  whatever the body holds, so the client is modelled for any type of body: the two
  fields of the combined result are type parameters.
\<close>

record ('a, 'h) ConnectionTestResult =
  apiInfo :: 'a
  healthCheck :: 'h

text \<open>
  What the client reads of a \<^verbatim>\<open>Response\<close>: the \<^verbatim>\<open>ok\<close> flag, the numeric status and the
  settlement of the promise that \<^verbatim>\<open>json()\<close> returns.
\<close>

record ('v, 'b) Response =
  ok :: bool
  status :: nat
  json :: "'v thrown + 'b"

text \<open>
  \<^verbatim>\<open>process.env\<close> is a dictionary of strings. \<^verbatim>\<open>fetch\<close> called with a URL alone issues a
  GET to it; the promise it returns rejects or fulfils with a \<^verbatim>\<open>Response\<close>. The
  source has one function \<^verbatim>\<open>fetch\<close>, whose bodies have the type \<^verbatim>\<open>any\<close>; HOL has no such
  type, so \<^verbatim>\<open>testConnection\<close> below takes \<^verbatim>\<open>fetch\<close> once for each type at which a body
  is read.
\<close>

type_synonym env = "string \<rightharpoonup> string"

type_synonym ('v, 'b) fetch = "string \<Rightarrow> 'v thrown + ('v, 'b) Response"

subsection \<open>\<^verbatim>\<open>ApiService\<close>\<close>

text \<open>
  \<^verbatim>\<open>process.env.NEXT_PUBLIC_API_BASE_URL || "http://localhost:3001"\<close>: the operator
  \<^verbatim>\<open>||\<close> takes its right operand when the left one is \<^verbatim>\<open>undefined\<close> or the empty string.
\<close>

definition getBaseUrl :: "env \<Rightarrow> string" where
  "getBaseUrl e =
     (case e ''NEXT_PUBLIC_API_BASE_URL'' of
        None \<Rightarrow> ''http://localhost:3001''
      | Some u \<Rightarrow> if u = [] then ''http://localhost:3001'' else u)"

text \<open>
  The two requests. Each returns the URLs it has passed to \<^verbatim>\<open>fetch\<close>, in order, and the
  settlement of its promise. A rejection of \<^verbatim>\<open>fetch\<close> passes through the \<^verbatim>\<open>await\<close>
  unchanged; a response that is not \<^verbatim>\<open>ok\<close> throws the client's own error; otherwise
  the promise of \<^verbatim>\<open>response.json()\<close> is returned.
\<close>

definition getApiInfo :: "env \<Rightarrow> ('v, 'b) fetch \<Rightarrow> string list \<times> ('v thrown + 'b)" where
  "getApiInfo e fetch =
     (let url = getBaseUrl e in
      ([url],
       case fetch url of
         Inl t \<Rightarrow> Inl t
       | Inr response \<Rightarrow>
           if \<not> ok response
           then Inl (Error (''HTTP error! status: '' @ show_nat (Response.status response)))
           else json response))"

definition getHealthCheck :: "env \<Rightarrow> ('v, 'b) fetch \<Rightarrow> string list \<times> ('v thrown + 'b)" where
  "getHealthCheck e fetch =
     (let url = getBaseUrl e @ ''/api/health'' in
      ([url],
       case fetch url of
         Inl t \<Rightarrow> Inl t
       | Inr response \<Rightarrow>
           if \<not> ok response
           then Inl (Error (''HTTP error! status: '' @ show_nat (Response.status response)))
           else json response))"

text \<open>
  \<^verbatim>\<open>Promise.all\<close> over an array of two promises, as the language defines it. It keeps
  the values fulfilled so far; the first rejection it sees settles it with that
  reason, the last missing fulfilment settles it with both values, and once settled
  it never changes. \<open>First\<close> and \<open>Second\<close> are the positions in the array.
\<close>

datatype slot = First | Second

datatype ('e, 'a, 'b) all_promise =
  AllPending "'a option" "'b option"
| AllSettled "'e + 'a \<times> 'b"

fun all_step :: "'e + 'a \<Rightarrow> 'e + 'b \<Rightarrow> ('e, 'a, 'b) all_promise \<Rightarrow> slot \<Rightarrow> ('e, 'a, 'b) all_promise" where
  "all_step pa pb (AllSettled r) sl = AllSettled r"
| "all_step pa pb (AllPending a b) First =
     (case pa of
        Inl e \<Rightarrow> AllSettled (Inl e)
      | Inr v \<Rightarrow> (case b of Some w \<Rightarrow> AllSettled (Inr (v, w)) | None \<Rightarrow> AllPending (Some v) None))"
| "all_step pa pb (AllPending a b) Second =
     (case pb of
        Inl e \<Rightarrow> AllSettled (Inl e)
      | Inr w \<Rightarrow> (case a of Some v \<Rightarrow> AllSettled (Inr (v, w)) | None \<Rightarrow> AllPending None (Some w)))"

text \<open>
  \<open>sched\<close> lists the positions in the order in which their promises settle; a position
  that is absent never settles. The result is \<open>None\<close> while the combined promise is
  pending.
\<close>

definition promise_all :: "slot list \<Rightarrow> 'e + 'a \<Rightarrow> 'e + 'b \<Rightarrow> ('e + 'a \<times> 'b) option" where
  "promise_all sched pa pb =
     (case foldl (all_step pa pb) (AllPending None None) sched of
        AllSettled r \<Rightarrow> Some r
      | AllPending a b \<Rightarrow> None)"

text \<open>
  \<^verbatim>\<open>testConnection\<close>: the array literal calls \<^verbatim>\<open>getApiInfo()\<close> and then
  \<^verbatim>\<open>getHealthCheck()\<close>, so both requests are issued before anything is awaited; the
  object is built from the two values once \<^verbatim>\<open>Promise.all\<close> has fulfilled.
\<close>

definition testConnection ::
  "env \<Rightarrow> ('v, 'a) fetch \<Rightarrow> ('v, 'h) fetch \<Rightarrow> slot list \<Rightarrow>
     string list \<times> ('v thrown + ('a, 'h) ConnectionTestResult) option" where
  "testConnection e fetch fetch' sched =
     (let (reqs1, p1) = getApiInfo e fetch;
          (reqs2, p2) = getHealthCheck e fetch'
      in (reqs1 @ reqs2,
          case promise_all sched p1 p2 of
            None \<Rightarrow> None
          | Some (Inl t) \<Rightarrow> Some (Inl t)
          | Some (Inr (a, h)) \<Rightarrow> Some (Inr \<lparr>apiInfo = a, healthCheck = h\<rparr>)))"

subsection \<open>\<^verbatim>\<open>ApiTestComponent\<close>\<close>

text \<open>
  What \<^verbatim>\<open>response.json()\<close> can hand to the component, since nothing validates a body:
  \<^verbatim>\<open>null\<close>, a boolean, a number, a string or an object. The component reads an object
  at the interface that its state declares for it (\<open>'o\<close> is \<open>ApiResponse\<close> or
  \<open>HealthResponse\<close>); arrays and objects of another shape are not modelled.
\<close>

datatype 'o js = JNull | JBool bool | JNum rat | JStr string | JObj 'o

text \<open>
  What \<^verbatim>\<open>&&\<close> tests: \<^verbatim>\<open>null\<close>, \<^verbatim>\<open>false\<close>, the number 0 and the empty string are falsy,
  every object is truthy.
\<close>

fun truthy :: "'o js \<Rightarrow> bool" where
  "truthy JNull = False"
| "truthy (JBool b) = b"
| "truthy (JNum n) = (n \<noteq> 0)"
| "truthy (JStr x) = (x \<noteq> [])"
| "truthy (JObj obj) = True"

text \<open>
  Reading a property: of an object its field; of a boolean, a number or a string
  \<^verbatim>\<open>undefined\<close>, which is \<open>None\<close>, as none of them has a property of the names that the
  component reads. Of \<^verbatim>\<open>null\<close> the read would throw; the component reads under a guard
  only, where the value is truthy.
\<close>

fun read_prop :: "('o \<Rightarrow> 'p) \<Rightarrow> 'o js \<Rightarrow> 'p option" where
  "read_prop field (JObj obj) = Some (field obj)"
| "read_prop field v = None"

text \<open>
  The four state variables of the component. The source declares the two payloads
  as \<^verbatim>\<open>ApiResponse | null\<close> and \<^verbatim>\<open>HealthResponse | null\<close>; when the program runs they hold
  whatever the bodies were.
\<close>

datatype ApiStatus = IDLE | LOADING | SUCCESS | ERROR

record ui_state =
  apiStatus :: ApiStatus
  apiData :: "ApiResponse js"
  healthData :: "HealthResponse js"
  error :: "string option"

definition initial_state :: ui_state where
  "initial_state = \<lparr>apiStatus = IDLE, apiData = JNull, healthData = JNull, error = None\<rparr>"

text \<open>
  What the awaited promise of \<^verbatim>\<open>testConnection\<close> settles with, as the component reads it:
  the thrown value, or the result with its two payloads.
\<close>

type_synonym 'v settlement =
  "'v thrown + (ApiResponse js, HealthResponse js) ConnectionTestResult"

text \<open>
  \<^verbatim>\<open>testApiConnection\<close> runs in two parts. The four setters before the \<^verbatim>\<open>await\<close> run
  when the button is clicked; the rest runs when the promise of \<^verbatim>\<open>testConnection\<close>
  settles, on the state the component has then.
\<close>

definition testApiConnection_start :: "ui_state \<Rightarrow> ui_state" where
  "testApiConnection_start s =
     s\<lparr>apiStatus := LOADING, error := None, apiData := JNull, healthData := JNull\<rparr>"

definition testApiConnection_settle :: "'v settlement \<Rightarrow> ui_state \<Rightarrow> ui_state" where
  "testApiConnection_settle r s =
     (case r of
        Inr result \<Rightarrow>
          s\<lparr>apiData := apiInfo result, healthData := healthCheck result, apiStatus := SUCCESS\<rparr>
      | Inl err \<Rightarrow>
          s\<lparr>apiStatus := ERROR,
            error := Some (case err of Error m \<Rightarrow> m | NonError v \<Rightarrow> ''Unknown error occurred'')\<rparr>)"

text \<open>One click with nothing else in between; \<open>None\<close> is a promise that never settles.\<close>

definition testApiConnection :: "'v settlement option \<Rightarrow> ui_state \<Rightarrow> ui_state" where
  "testApiConnection p s =
     (case p of
        None \<Rightarrow> testApiConnection_start s
      | Some r \<Rightarrow> testApiConnection_settle r (testApiConnection_start s))"

text \<open>
  The rendered tree: text nodes and elements with their tag, attributes and children.
  Of the attributes, \<^verbatim>\<open>data-testid\<close> and \<^verbatim>\<open>disabled\<close> are kept; the class names, and with
  them the \<^verbatim>\<open>className\<close> property, are styling and are left out.
\<close>

datatype dom = Text string | Elem string "(string \<times> string) list" "dom list"

text \<open>
  A string expression in braces: \<^verbatim>\<open>undefined\<close>, \<^verbatim>\<open>null\<close> and the empty string give no
  node.
\<close>

definition text_child :: "string option \<Rightarrow> dom list" where
  "text_child x = (case x of None \<Rightarrow> [] | Some t \<Rightarrow> if t = [] then [] else [Text t])"

text \<open>
  \<^verbatim>\<open>{v && (...)}\<close>: the elements when \<open>v\<close> is truthy, and otherwise \<open>v\<close> itself, of which
  the number 0 is rendered as the text \<^verbatim>\<open>0\<close> and \<^verbatim>\<open>null\<close>, \<^verbatim>\<open>false\<close> and the empty string
  as nothing.
\<close>

definition guarded :: "'o js \<Rightarrow> dom list \<Rightarrow> dom list" where
  "guarded v cs =
     (if truthy v then cs else (case v of JNum n \<Rightarrow> [Text ''0''] | _ \<Rightarrow> []))"

text \<open>
  \<^verbatim>\<open>{Math.floor(healthData.uptime)}\<close>: the floor, printed; \<^verbatim>\<open>Math.floor(undefined)\<close> is
  \<^verbatim>\<open>NaN\<close>. The digits are those that JavaScript prints when the magnitude of the floor
  is below \<open>2 ^ 53\<close>.
\<close>

definition floor_text :: "rat option \<Rightarrow> string" where
  "floor_text u = (case u of None \<Rightarrow> ''NaN'' | Some x \<Rightarrow> show_int \<lfloor>x\<rfloor>)"

definition check_mark :: string where
  "check_mark = map char_of [226, 156, 133 :: nat]"

definition cross_mark :: string where
  "cross_mark = map char_of [226, 157, 140 :: nat]"

definition render :: "env \<Rightarrow> ui_state \<Rightarrow> dom" where
  "render e s =
     Elem ''div'' [(''data-testid'', ''api-test-component'')]
      ([Elem ''h2'' [] [Text ''Backend API Test''],
        Elem ''button''
          ((''data-testid'', ''test-connection-button'') #
           (if apiStatus s = LOADING then [(''disabled'', [])] else []))
          [Text (if apiStatus s = LOADING then ''Testing Connection...''
                 else ''Test Backend Connection'')]] @
       (if apiStatus s = SUCCESS then
          guarded (apiData s)
            [Elem ''div'' [(''data-testid'', ''success-message'')]
              [Elem ''h3'' [] [Text (check_mark @ '' Connection Successful!'')],
               Elem ''div'' []
                ([Elem ''p'' [(''data-testid'', ''api-message'')]
                   ([Elem ''strong'' [] [Text ''Message:''], Text '' ''] @
                    text_child (read_prop message (apiData s))),
                  Elem ''p'' [(''data-testid'', ''api-version'')]
                   ([Elem ''strong'' [] [Text ''Version:''], Text '' ''] @
                    text_child (read_prop version (apiData s))),
                  Elem ''p'' [(''data-testid'', ''backend-url'')]
                   ([Elem ''strong'' [] [Text ''Backend URL:''], Text '' ''] @
                    text_child (Some (getBaseUrl e)))] @
                 guarded (healthData s)
                   [Elem ''p'' [(''data-testid'', ''health-status'')]
                     ([Elem ''strong'' [] [Text ''Health Status:''], Text '' ''] @
                      text_child (read_prop HealthResponse.status (healthData s))),
                    Elem ''p'' [(''data-testid'', ''uptime'')]
                     [Elem ''strong'' [] [Text ''Uptime:''], Text '' '',
                      Text (floor_text (read_prop uptime (healthData s))), Text ''s'']])]]
        else []) @
       (if apiStatus s = ERROR then
          [Elem ''div'' [(''data-testid'', ''error-message'')]
            [Elem ''h3'' [] [Text (cross_mark @ '' Connection Failed'')],
             Elem ''p'' [(''data-testid'', ''error-text'')] (text_child (error s)),
             Elem ''p'' []
              ([Text ''Trying to connect to: ''] @ text_child (Some (getBaseUrl e)))]]
        else []))"

text \<open>
  What the tests read off the tree: the elements that carry a given \<^verbatim>\<open>data-testid\<close>, in
  document order, and the text of a node.
\<close>

fun allByTestId :: "string \<Rightarrow> dom \<Rightarrow> dom list" where
  "allByTestId t (Text x) = []"
| "allByTestId t (Elem tag attrs cs) =
     (if map_of attrs ''data-testid'' = Some t then [Elem tag attrs cs] else []) @
     concat (map (allByTestId t) cs)"


subsection \<open>Inputs of the test suites\<close>

text \<open>
  The payloads that \<^verbatim>\<open>ApiTestComponent.test.tsx\<close> resolves \<^verbatim>\<open>testConnection\<close> with, and
  mocked \<^verbatim>\<open>fetch\<close> functions in the manner of \<^verbatim>\<open>api.test.ts\<close>. The mocked failure
  \<^verbatim>\<open>{ ok: false, status: 500 }\<close> has no \<^verbatim>\<open>json\<close> method: calling it would throw a
  \<^verbatim>\<open>TypeError\<close>, which the client never does for such a response.
\<close>

definition mock_api :: ApiResponse where
  "mock_api =
     \<lparr>message = ''Test API'', version = ''1.0.0'', timestamp = ''2025-08-12T20:00:00.000Z''\<rparr>"

definition mock_health :: HealthResponse where
  "mock_health =
     \<lparr>HealthResponse.status = ''healthy'', timestamp = ''2025-08-12T20:00:00.000Z'',
      uptime = 3600\<rparr>"


definition env_production :: env where
  "env_production = [''NEXT_PUBLIC_API_BASE_URL'' \<mapsto> ''https://production-api.com'']"

definition fetch_info :: "(unit, ApiResponse js) fetch" where
  "fetch_info url = Inr \<lparr>ok = True, status = 200, json = Inr (JObj mock_api)\<rparr>"

definition fetch_health :: "(unit, HealthResponse js) fetch" where
  "fetch_health url = Inr \<lparr>ok = True, status = 200, json = Inr (JObj mock_health)\<rparr>"



definition fetch_500_503 :: "(unit, 'b) fetch" where
  "fetch_500_503 url =
     Inr \<lparr>ok = False,
          status = (if url = ''http://localhost:3001'' then 500 else 503),
          json = Inl (Error ''response.json is not a function'')\<rparr>"

definition fetch_json_rejects :: "(string, 'b) fetch" where
  "fetch_json_rejects url = Inr \<lparr>ok = True, status = 200, json = Inl (NonError ''boom'')\<rparr>"

text \<open>The component after one click on each of these back ends, from its initial state.\<close>

definition state_success :: ui_state where
  "state_success =
     testApiConnection (snd (testConnection Map.empty fetch_info fetch_health [First, Second]))
       initial_state"





definition state_json_rejects :: ui_state where
  "state_json_rejects =
     testApiConnection
       (snd (testConnection Map.empty
          (fetch_json_rejects :: (string, ApiResponse js) fetch)
          (fetch_json_rejects :: (string, HealthResponse js) fetch) [First, Second]))
       initial_state"

subsection \<open>An invariant of \<^verbatim>\<open>Promise.all\<close>\<close>

text \<open>
  Every value that the combined promise holds is the value its input promise has
  fulfilled with.
\<close>

fun all_inv :: "'e + 'a \<Rightarrow> 'e + 'b \<Rightarrow> ('e, 'a, 'b) all_promise \<Rightarrow> bool" where
  "all_inv pa pb (AllPending a b) =
     ((case a of None \<Rightarrow> True | Some v \<Rightarrow> pa = Inr v) \<and>
      (case b of None \<Rightarrow> True | Some w \<Rightarrow> pb = Inr w))"
| "all_inv pa pb (AllSettled (Inl t)) = True"
| "all_inv pa pb (AllSettled (Inr (v, w))) = (pa = Inr v \<and> pb = Inr w)"

section \<open>Properties\<close>

subsection \<open>Auxiliary facts\<close>

lemma read_nat_append: "read_nat acc (xs @ [c]) = 10 * read_nat acc xs + (of_char c - 48)"
  by (induction xs arbitrary: acc) simp_all

lemma of_char_digits: "\<forall>k<10. of_char (''0123456789'' ! k) = (48 + k :: nat)"
  by (simp add: numeral_eq_Suc All_less_Suc)

lemma of_char_digit: "of_char (digit d) = (48 + d mod 10 :: nat)"
  using of_char_digits by (simp add: digit_def)

lemma read_show_nat: "read_nat 0 (show_nat n) = n"
proof (induction n rule: show_nat.induct)
  case (1 n)
  show ?case
  proof (cases "n < 10")
    case True
    then show ?thesis
      by (simp add: show_nat.simps [of n] of_char_digit)
  next
    case False
    with 1 have "read_nat 0 (show_nat (n div 10)) = n div 10"
      by simp
    with False show ?thesis
      by (simp add: show_nat.simps [of n] read_nat_append of_char_digit)
  qed
qed

lemma show_nat_inj: "show_nat m = show_nat n \<Longrightarrow> m = n"
proof -
  assume "show_nat m = show_nat n"
  then have "read_nat 0 (show_nat m) = read_nat 0 (show_nat n)"
    by (rule arg_cong)
  then show "m = n"
    by (simp only: read_show_nat)
qed

lemma show_nat_500: "show_nat 500 = ''500''"
  by (simp add: show_nat.simps [of 500] show_nat.simps [of 50] show_nat.simps [of 5] digit_def)

lemma show_nat_503: "show_nat 503 = ''503''"
  by (simp add: show_nat.simps [of 503] show_nat.simps [of 50] show_nat.simps [of 5] digit_def)



lemma getApiInfo_requests: "fst (getApiInfo e f) = [getBaseUrl e]"
  by (simp add: getApiInfo_def Let_def)

lemma getHealthCheck_requests: "fst (getHealthCheck e f) = [getBaseUrl e @ ''/api/health'']"
  by (simp add: getHealthCheck_def Let_def)

lemma getApiInfo_settles:
  "snd (getApiInfo e f) =
     (case f (getBaseUrl e) of
        Inl t \<Rightarrow> Inl t
      | Inr r \<Rightarrow>
          if \<not> ok r then Inl (Error (''HTTP error! status: '' @ show_nat (Response.status r)))
          else json r)"
  by (simp add: getApiInfo_def Let_def)

lemma getHealthCheck_settles:
  "snd (getHealthCheck e f) =
     (case f (getBaseUrl e @ ''/api/health'') of
        Inl t \<Rightarrow> Inl t
      | Inr r \<Rightarrow>
          if \<not> ok r then Inl (Error (''HTTP error! status: '' @ show_nat (Response.status r)))
          else json r)"
  by (simp add: getHealthCheck_def Let_def)

lemma promise_all_both_orders:
  "promise_all [First, Second] pa pb =
     Some (case pa of Inl t \<Rightarrow> Inl t
           | Inr a \<Rightarrow> (case pb of Inl t \<Rightarrow> Inl t | Inr b \<Rightarrow> Inr (a, b)))"
  "promise_all [Second, First] pa pb =
     Some (case pb of Inl t \<Rightarrow> Inl t
           | Inr b \<Rightarrow> (case pa of Inl t \<Rightarrow> Inl t | Inr a \<Rightarrow> Inr (a, b)))"
  by (simp_all add: promise_all_def split: sum.splits)

lemma all_step_inv: "all_inv pa pb st \<Longrightarrow> all_inv pa pb (all_step pa pb st sl)"
  by (cases st; cases sl) (auto split: sum.splits option.splits)

lemma foldl_all_step_inv:
  "all_inv pa pb st \<Longrightarrow> all_inv pa pb (foldl (all_step pa pb) st sched)"
  by (induction sched arbitrary: st) (simp_all add: all_step_inv)

lemma promise_all_fulfilled:
  "promise_all sched pa pb = Some (Inr (a, b)) \<Longrightarrow> pa = Inr a \<and> pb = Inr b"
  using foldl_all_step_inv [of pa pb "AllPending None None" sched]
  by (auto simp add: promise_all_def split: all_promise.splits)

lemma foldl_all_step_rejected:
  "foldl (all_step pa pb) st sched = AllSettled (Inl t) \<Longrightarrow>
     st = AllSettled (Inl t) \<or> pa = Inl t \<or> pb = Inl t"
proof (induction sched arbitrary: st)
  case Nil
  then show ?case by simp
next
  case (Cons sl sched)
  from Cons.prems
  have "foldl (all_step pa pb) (all_step pa pb st sl) sched = AllSettled (Inl t)"
    by simp
  from Cons.IH [OF this] show ?case
    by (cases st; cases sl) (auto split: sum.splits option.splits)
qed

lemma promise_all_rejected:
  "promise_all sched pa pb = Some (Inl t) \<Longrightarrow> pa = Inl t \<or> pb = Inl t"
  using foldl_all_step_rejected [of pa pb "AllPending None None" sched t]
  by (auto simp add: promise_all_def split: all_promise.splits)

lemma testConnection_requests:
  "fst (testConnection e f f' sched) = [getBaseUrl e, getBaseUrl e @ ''/api/health'']"
  by (simp add: testConnection_def case_prod_beta getApiInfo_requests getHealthCheck_requests)

lemma testConnection_settles:
  "snd (testConnection e f f' sched) =
     (case promise_all sched (snd (getApiInfo e f)) (snd (getHealthCheck e f')) of
        None \<Rightarrow> None
      | Some (Inl t) \<Rightarrow> Some (Inl t)
      | Some (Inr (a, h)) \<Rightarrow> Some (Inr \<lparr>apiInfo = a, healthCheck = h\<rparr>))"
  by (simp add: testConnection_def case_prod_beta)


lemma allByTestId_text_child: "concat (map (allByTestId t) (text_child x)) = []"
  by (cases x) (simp_all add: text_child_def)

lemma allByTestId_guarded:
  "concat (map (allByTestId t) (guarded v cs)) =
     (if truthy v then concat (map (allByTestId t) cs) else [])"
  by (cases v) (simp_all add: guarded_def)

lemma success_message_shown:
  "allByTestId ''success-message'' (render e s) \<noteq> [] \<longleftrightarrow>
     apiStatus s = SUCCESS \<and> truthy (apiData s)"
  by (cases "apiStatus s"; cases "truthy (apiData s)"; cases "truthy (healthData s)")
    (simp_all add: render_def allByTestId_guarded allByTestId_text_child)



lemma state_success_eq:
  "state_success =
     \<lparr>apiStatus = SUCCESS, apiData = JObj mock_api, healthData = JObj mock_health, error = None\<rparr>"
  by (simp add: state_success_def testConnection_settles promise_all_both_orders
      getApiInfo_settles getHealthCheck_settles fetch_info_def fetch_health_def
      testApiConnection_def testApiConnection_settle_def testApiConnection_start_def
      initial_state_def)





lemma state_json_rejects_eq:
  "state_json_rejects =
     \<lparr>apiStatus = ERROR, apiData = JNull, healthData = JNull,
      error = Some ''Unknown error occurred''\<rparr>"
  by (simp add: state_json_rejects_def testConnection_settles promise_all_both_orders
      getApiInfo_settles getHealthCheck_settles fetch_json_rejects_def
      testApiConnection_def testApiConnection_settle_def testApiConnection_start_def
      initial_state_def)

lemma getApiInfo_rejected:
  "snd (getApiInfo e f) = Inl t \<Longrightarrow>
     f (getBaseUrl e) = Inl t \<or>
     (\<exists>r. f (getBaseUrl e) = Inr r \<and> ok r \<and> json r = Inl t) \<or>
     (\<exists>r. f (getBaseUrl e) = Inr r \<and> \<not> ok r \<and>
          t = Error (''HTTP error! status: '' @ show_nat (Response.status r)))"
  by (auto simp add: getApiInfo_settles split: sum.splits if_splits)

lemma getHealthCheck_rejected:
  "snd (getHealthCheck e f) = Inl t \<Longrightarrow>
     f (getBaseUrl e @ ''/api/health'') = Inl t \<or>
     (\<exists>r. f (getBaseUrl e @ ''/api/health'') = Inr r \<and> ok r \<and> json r = Inl t) \<or>
     (\<exists>r. f (getBaseUrl e @ ''/api/health'') = Inr r \<and> \<not> ok r \<and>
          t = Error (''HTTP error! status: '' @ show_nat (Response.status r)))"
  by (auto simp add: getHealthCheck_settles split: sum.splits if_splits)

lemma testConnection_rejected:
  "snd (testConnection e f f' sched) = Some (Inl t) \<Longrightarrow>
     snd (getApiInfo e f) = Inl t \<or> snd (getHealthCheck e f') = Inl t"
proof -
  assume "snd (testConnection e f f' sched) = Some (Inl t)"
  then have "promise_all sched (snd (getApiInfo e f)) (snd (getHealthCheck e f')) = Some (Inl t)"
    by (auto simp add: testConnection_settles split: option.splits sum.splits)
  then show ?thesis
    by (rule promise_all_rejected)
qed

lemma http_message_not_fallback: "''HTTP error! status: '' @ n \<noteq> ''Unknown error occurred''"
  by simp

lemma fallback_shown:
  "error (testApiConnection p s) = Some ''Unknown error occurred'' \<Longrightarrow>
     p = Some (Inl (Error ''Unknown error occurred'')) \<or> (\<exists>v. p = Some (Inl (NonError v)))"
  by (auto simp add: testApiConnection_def testApiConnection_settle_def testApiConnection_start_def
      split: option.splits sum.splits thrown.splits)

subsection \<open>The client\<close>

text \<open>
  C8: \<^verbatim>\<open>getBaseUrl\<close> returns the URL of the environment variable when it is set to a
  string that is not empty, and \<^verbatim>\<open>http://localhost:3001\<close> when it is unset. It reads the
  environment at every call: after the variable has been set the next call returns the
  new value, and after it has been deleted the next call returns the default.
\<close>

theorem getBaseUrl_env:
  "(e ''NEXT_PUBLIC_API_BASE_URL'' = Some u \<and> u \<noteq> [] \<longrightarrow> getBaseUrl e = u) \<and>
   (e ''NEXT_PUBLIC_API_BASE_URL'' = None \<longrightarrow> getBaseUrl e = ''http://localhost:3001'') \<and>
   (u \<noteq> [] \<longrightarrow> getBaseUrl (e(''NEXT_PUBLIC_API_BASE_URL'' \<mapsto> u)) = u) \<and>
   getBaseUrl (e(''NEXT_PUBLIC_API_BASE_URL'' := None)) = ''http://localhost:3001''"
  by (simp add: getBaseUrl_def)

theorem getBaseUrl_env_witness:
  "getBaseUrl env_production = ''https://production-api.com'' \<and>
   getBaseUrl Map.empty = ''http://localhost:3001'' \<and>
   getBaseUrl (env_production(''NEXT_PUBLIC_API_BASE_URL'' := None)) = ''http://localhost:3001''"
  using getBaseUrl_env [of env_production "''https://production-api.com''"]
    getBaseUrl_env [of Map.empty "''https://production-api.com''"]
  by (simp add: env_production_def)

text \<open>
  C2: when the response has \<^verbatim>\<open>ok\<close> false and status \<open>S\<close>, \<^verbatim>\<open>getApiInfo\<close> and
  \<^verbatim>\<open>getHealthCheck\<close> each reject with an \<^verbatim>\<open>Error\<close> whose message is
  \<^verbatim>\<open>HTTP error! status: S\<close>, after exactly one request: the failure reaches the caller,
  and nothing is tried again.
\<close>

theorem http_error_surfaced:
  "(fetch (getBaseUrl e) = Inr r \<and> \<not> ok r \<longrightarrow>
      getApiInfo e fetch =
        ([getBaseUrl e],
         Inl (Error (''HTTP error! status: '' @ show_nat (Response.status r))))) \<and>
   (fetch' (getBaseUrl e @ ''/api/health'') = Inr r' \<and> \<not> ok r' \<longrightarrow>
      getHealthCheck e fetch' =
        ([getBaseUrl e @ ''/api/health''],
         Inl (Error (''HTTP error! status: '' @ show_nat (Response.status r')))))"
  by (simp add: getApiInfo_def getHealthCheck_def)

theorem http_error_surfaced_witness:
  "getApiInfo Map.empty (fetch_500_503 :: (unit, unit) fetch) =
     ([''http://localhost:3001''], Inl (Error ''HTTP error! status: 500'')) \<and>
   getHealthCheck Map.empty (fetch_500_503 :: (unit, unit) fetch) =
     ([''http://localhost:3001/api/health''], Inl (Error ''HTTP error! status: 503''))"
  using http_error_surfaced [of "fetch_500_503 :: (unit, unit) fetch" Map.empty
      "\<lparr>ok = False, status = 500, json = Inl (Error ''response.json is not a function'')\<rparr>"
      "fetch_500_503 :: (unit, unit) fetch"
      "\<lparr>ok = False, status = 503, json = Inl (Error ''response.json is not a function'')\<rparr>"]
  by (simp add: fetch_500_503_def getBaseUrl_def show_nat_500 show_nat_503)

text \<open>
  C6: when the response has \<^verbatim>\<open>ok\<close> true and \<^verbatim>\<open>json()\<close> yields the body \<open>B\<close>,
  \<^verbatim>\<open>getApiInfo\<close> fulfils with \<open>B\<close> itself after one GET to the base URL, and
  \<^verbatim>\<open>getHealthCheck\<close> fulfils with \<open>B\<close> itself after one GET to the base URL followed by
  \<^verbatim>\<open>/api/health\<close>. Both are defined for every type of body, so neither can inspect or
  change it.
\<close>

theorem response_body_verbatim:
  "(fetch (getBaseUrl e) = Inr r \<and> ok r \<and> json r = Inr B \<longrightarrow>
      getApiInfo e fetch = ([getBaseUrl e], Inr B)) \<and>
   (fetch' (getBaseUrl e @ ''/api/health'') = Inr r' \<and> ok r' \<and> json r' = Inr B' \<longrightarrow>
      getHealthCheck e fetch' = ([getBaseUrl e @ ''/api/health''], Inr B'))"
  by (simp add: getApiInfo_def getHealthCheck_def)

theorem response_body_verbatim_witness:
  "getApiInfo Map.empty fetch_info = ([''http://localhost:3001''], Inr (JObj mock_api)) \<and>
   getHealthCheck Map.empty fetch_health =
     ([''http://localhost:3001/api/health''], Inr (JObj mock_health))"
  using response_body_verbatim [of fetch_info Map.empty
      "\<lparr>ok = True, status = 200, json = Inr (JObj mock_api)\<rparr>" "JObj mock_api"
      fetch_health "\<lparr>ok = True, status = 200, json = Inr (JObj mock_health)\<rparr>"
      "JObj mock_health"]
  by (simp add: fetch_info_def fetch_health_def getBaseUrl_def)

text \<open>
  C1: \<^verbatim>\<open>testConnection\<close> never returns a partial result. Whatever the order of
  settlement, and also when one call never settles, a fulfilment carries the values
  of both calls, and a rejection carries the reason of one of them. When both calls
  settle, it fulfils with \<open>{apiInfo, healthCheck}\<close> if and only if both have fulfilled;
  if one call alone rejects, it rejects with that call's reason, and if both reject,
  with the reason of the call that settled first.
\<close>

theorem testConnection_all_or_error:
  "(\<forall>r. snd (testConnection e f f' sched) = Some (Inr r) \<longrightarrow>
      snd (getApiInfo e f) = Inr (apiInfo r) \<and> snd (getHealthCheck e f') = Inr (healthCheck r)) \<and>
   (\<forall>t. snd (testConnection e f f' sched) = Some (Inl t) \<longrightarrow>
      snd (getApiInfo e f) = Inl t \<or> snd (getHealthCheck e f') = Inl t) \<and>
   (sched = [First, Second] \<or> sched = [Second, First] \<longrightarrow>
      (\<forall>a h. snd (getApiInfo e f) = Inr a \<and> snd (getHealthCheck e f') = Inr h \<longrightarrow>
         snd (testConnection e f f' sched) = Some (Inr \<lparr>apiInfo = a, healthCheck = h\<rparr>)) \<and>
      (\<forall>t h. snd (getApiInfo e f) = Inl t \<and> snd (getHealthCheck e f') = Inr h \<longrightarrow>
         snd (testConnection e f f' sched) = Some (Inl t)) \<and>
      (\<forall>a t. snd (getApiInfo e f) = Inr a \<and> snd (getHealthCheck e f') = Inl t \<longrightarrow>
         snd (testConnection e f f' sched) = Some (Inl t)) \<and>
      (\<forall>t t'. snd (getApiInfo e f) = Inl t \<and> snd (getHealthCheck e f') = Inl t' \<longrightarrow>
         snd (testConnection e f f' sched) = Some (Inl (if hd sched = First then t else t'))))"
proof (intro conjI allI impI)
  fix r assume "snd (testConnection e f f' sched) = Some (Inr r)"
  then have "promise_all sched (snd (getApiInfo e f)) (snd (getHealthCheck e f')) =
      Some (Inr (apiInfo r, healthCheck r))"
    by (auto simp add: testConnection_settles split: option.splits sum.splits)
  then show "snd (getApiInfo e f) = Inr (apiInfo r)" "snd (getHealthCheck e f') = Inr (healthCheck r)"
    by (auto dest: promise_all_fulfilled)
next
  fix t assume "snd (testConnection e f f' sched) = Some (Inl t)"
  then have "promise_all sched (snd (getApiInfo e f)) (snd (getHealthCheck e f')) = Some (Inl t)"
    by (auto simp add: testConnection_settles split: option.splits sum.splits)
  then show "snd (getApiInfo e f) = Inl t \<or> snd (getHealthCheck e f') = Inl t"
    by (rule promise_all_rejected)
next
  fix a h
  assume "sched = [First, Second] \<or> sched = [Second, First]"
    and "snd (getApiInfo e f) = Inr a \<and> snd (getHealthCheck e f') = Inr h"
  then show "snd (testConnection e f f' sched) = Some (Inr \<lparr>apiInfo = a, healthCheck = h\<rparr>)"
    by (auto simp add: testConnection_settles promise_all_both_orders)
next
  fix t h
  assume "sched = [First, Second] \<or> sched = [Second, First]"
    and "snd (getApiInfo e f) = Inl t \<and> snd (getHealthCheck e f') = Inr h"
  then show "snd (testConnection e f f' sched) = Some (Inl t)"
    by (auto simp add: testConnection_settles promise_all_both_orders)
next
  fix a t
  assume "sched = [First, Second] \<or> sched = [Second, First]"
    and "snd (getApiInfo e f) = Inr a \<and> snd (getHealthCheck e f') = Inl t"
  then show "snd (testConnection e f f' sched) = Some (Inl t)"
    by (auto simp add: testConnection_settles promise_all_both_orders)
next
  fix t t'
  assume "sched = [First, Second] \<or> sched = [Second, First]"
    and "snd (getApiInfo e f) = Inl t \<and> snd (getHealthCheck e f') = Inl t'"
  then show "snd (testConnection e f f' sched) = Some (Inl (if hd sched = First then t else t'))"
    by (auto simp add: testConnection_settles promise_all_both_orders)
qed

theorem testConnection_all_or_error_witness:
  "snd (testConnection Map.empty fetch_info fetch_health [First, Second]) =
     Some (Inr \<lparr>apiInfo = JObj mock_api, healthCheck = JObj mock_health\<rparr>) \<and>
   snd (testConnection Map.empty (fetch_500_503 :: (unit, ApiResponse js) fetch)
          fetch_health [Second, First]) =
     Some (Inl (Error ''HTTP error! status: 500''))"
proof -
  have info: "snd (getApiInfo Map.empty fetch_info) = Inr (JObj mock_api)"
    by (simp add: getApiInfo_settles fetch_info_def)
  have health: "snd (getHealthCheck Map.empty fetch_health) = Inr (JObj mock_health)"
    by (simp add: getHealthCheck_settles fetch_health_def)
  have failed: "snd (getApiInfo Map.empty (fetch_500_503 :: (unit, ApiResponse js) fetch)) =
      Inl (Error ''HTTP error! status: 500'')"
    by (simp add: getApiInfo_settles fetch_500_503_def getBaseUrl_def show_nat_500)
  from testConnection_all_or_error [of Map.empty fetch_info fetch_health "[First, Second]"]
    info health
  have "snd (testConnection Map.empty fetch_info fetch_health [First, Second]) =
      Some (Inr \<lparr>apiInfo = JObj mock_api, healthCheck = JObj mock_health\<rparr>)"
    by blast
  moreover
  from testConnection_all_or_error [of Map.empty fetch_500_503 fetch_health "[Second, First]"]
    failed health
  have "snd (testConnection Map.empty (fetch_500_503 :: (unit, ApiResponse js) fetch)
         fetch_health [Second, First]) = Some (Inl (Error ''HTTP error! status: 500''))"
    by blast
  ultimately show ?thesis
    by (rule conjI)
qed

text \<open>
  C5, as the spec states it, fails: when both calls reject, with different reasons,
  the reason that \<^verbatim>\<open>testConnection\<close> rejects with is the one of the call that settles
  first.
\<close>

theorem testConnection_order_counterexample:
  "snd (testConnection Map.empty (fetch_500_503 :: (unit, unit) fetch)
          (fetch_500_503 :: (unit, unit) fetch) [First, Second]) =
     Some (Inl (Error ''HTTP error! status: 500'')) \<and>
   snd (testConnection Map.empty (fetch_500_503 :: (unit, unit) fetch)
          (fetch_500_503 :: (unit, unit) fetch) [Second, First]) =
     Some (Inl (Error ''HTTP error! status: 503''))"
  by (simp add: testConnection_settles promise_all_both_orders getApiInfo_settles
      getHealthCheck_settles fetch_500_503_def getBaseUrl_def show_nat_500 show_nat_503)

text \<open>
  C5, amended: unless both calls reject with different reasons, the result of
  \<^verbatim>\<open>testConnection\<close>, and the requests it issues, are the same whichever of the two
  calls settles first.
\<close>

theorem testConnection_order_independent:
  assumes "\<forall>t t'. snd (getApiInfo e f) = Inl t \<and> snd (getHealthCheck e f') = Inl t' \<longrightarrow> t = t'"
  shows "testConnection e f f' [First, Second] = testConnection e f f' [Second, First]"
proof -
  have "snd (testConnection e f f' [First, Second]) = snd (testConnection e f f' [Second, First])"
    using assms
    by (auto simp add: testConnection_settles promise_all_both_orders split: sum.splits)
  moreover
  have "fst (testConnection e f f' [First, Second]) = fst (testConnection e f f' [Second, First])"
    by (simp add: testConnection_requests)
  ultimately show ?thesis
    by (simp add: prod_eq_iff)
qed

theorem testConnection_order_independent_witness:
  "snd (getHealthCheck Map.empty fetch_health) = Inr (JObj mock_health) \<and>
   testConnection Map.empty (fetch_500_503 :: (unit, unit) fetch) fetch_health [First, Second] =
   testConnection Map.empty (fetch_500_503 :: (unit, unit) fetch) fetch_health [Second, First]"
proof -
  have h: "snd (getHealthCheck Map.empty fetch_health) = Inr (JObj mock_health)"
    by (simp add: getHealthCheck_settles fetch_health_def)
  then have "\<forall>t t'. snd (getApiInfo Map.empty (fetch_500_503 :: (unit, unit) fetch)) = Inl t \<and>
      snd (getHealthCheck Map.empty fetch_health) = Inl t' \<longrightarrow> t = t'"
    by simp
  from testConnection_order_independent [OF this] h show ?thesis
    by simp
qed

subsection \<open>The component\<close>

text \<open>
  C4: whatever the state before, the click sets the status to \<^verbatim>\<open>loading\<close> and sets the
  result, the health payload and the error message to \<^verbatim>\<open>null\<close>, before the promise of
  \<^verbatim>\<open>testConnection\<close> settles; while it is pending the tree holds neither the success
  display nor the error display, and the button is disabled with its loading label.
\<close>

theorem testApiConnection_start_clears:
  "testApiConnection_start s =
     \<lparr>apiStatus = LOADING, apiData = JNull, healthData = JNull, error = None\<rparr> \<and>
   testApiConnection (None :: 'v settlement option) s = testApiConnection_start s \<and>
   allByTestId ''success-message'' (render e (testApiConnection_start s)) = [] \<and>
   allByTestId ''error-message'' (render e (testApiConnection_start s)) = [] \<and>
   allByTestId ''test-connection-button'' (render e (testApiConnection_start s)) =
     [Elem ''button'' [(''data-testid'', ''test-connection-button''), (''disabled'', [])]
       [Text ''Testing Connection...'']]"
  by (simp add: testApiConnection_def testApiConnection_start_def render_def)

theorem testApiConnection_start_clears_witness:
  "testApiConnection_start state_success =
     \<lparr>apiStatus = LOADING, apiData = JNull, healthData = JNull, error = None\<rparr> \<and>
   allByTestId ''success-message'' (render Map.empty state_success) \<noteq> [] \<and>
   allByTestId ''success-message'' (render Map.empty (testApiConnection_start state_success)) = []"
proof -
  note start = testApiConnection_start_clears [of state_success Map.empty]
  from start
  have "testApiConnection_start state_success =
      \<lparr>apiStatus = LOADING, apiData = JNull, healthData = JNull, error = None\<rparr>"
    by blast
  moreover
  have "allByTestId ''success-message'' (render Map.empty state_success) \<noteq> []"
    using success_message_shown [of Map.empty state_success] by (simp add: state_success_eq)
  moreover from start
  have "allByTestId ''success-message'' (render Map.empty (testApiConnection_start state_success)) = []"
    by blast
  ultimately show ?thesis
    by blast
qed

text \<open>
  C3: when the promise of \<^verbatim>\<open>testConnection\<close> settles, the component leaves \<^verbatim>\<open>loading\<close>:
  a fulfilment gives the status \<^verbatim>\<open>success\<close> with the two payloads of the result, a
  rejection with an \<^verbatim>\<open>Error\<close> gives the status \<^verbatim>\<open>error\<close> with that error's message,
  and a rejection with any other value gives the status \<^verbatim>\<open>error\<close> with the message
  \<^verbatim>\<open>Unknown error occurred\<close>. The status after a settlement is \<^verbatim>\<open>success\<close> or \<^verbatim>\<open>error\<close>
  also when the state has changed since the click.
\<close>

theorem testApiConnection_terminal:
  "testApiConnection (Some (Inr result :: 'v settlement)) s =
     \<lparr>apiStatus = SUCCESS, apiData = apiInfo result, healthData = healthCheck result,
      error = None\<rparr> \<and>
   testApiConnection (Some (Inl (Error m) :: 'v settlement)) s =
     \<lparr>apiStatus = ERROR, apiData = JNull, healthData = JNull, error = Some m\<rparr> \<and>
   testApiConnection (Some (Inl (NonError v) :: 'v settlement)) s =
     \<lparr>apiStatus = ERROR, apiData = JNull, healthData = JNull,
      error = Some ''Unknown error occurred''\<rparr> \<and>
   (apiStatus (testApiConnection (Some (r :: 'v settlement)) s) = SUCCESS \<or>
    apiStatus (testApiConnection (Some r) s) = ERROR) \<and>
   (apiStatus (testApiConnection_settle r s') = SUCCESS \<or>
    apiStatus (testApiConnection_settle r s') = ERROR)"
  by (simp add: testApiConnection_def testApiConnection_settle_def testApiConnection_start_def
      split: sum.splits)

theorem testApiConnection_terminal_witness:
  "testApiConnection
     (Some (Inr \<lparr>apiInfo = JObj mock_api, healthCheck = JObj mock_health\<rparr> :: string settlement))
     initial_state =
     \<lparr>apiStatus = SUCCESS, apiData = JObj mock_api, healthData = JObj mock_health,
      error = None\<rparr> \<and>
   testApiConnection (Some (Inl (Error ''Network error occurred'') :: string settlement))
     initial_state =
     \<lparr>apiStatus = ERROR, apiData = JNull, healthData = JNull,
      error = Some ''Network error occurred''\<rparr> \<and>
   testApiConnection (Some (Inl (NonError ''Unknown error'') :: string settlement))
     initial_state =
     \<lparr>apiStatus = ERROR, apiData = JNull, healthData = JNull,
      error = Some ''Unknown error occurred''\<rparr>"
  using testApiConnection_terminal
    [where result = "\<lparr>apiInfo = JObj mock_api, healthCheck = JObj mock_health\<rparr>"
       and s = initial_state and m = "''Network error occurred''"
       and v = "''Unknown error''" and r = "Inl (NonError ''Unknown error'')"
       and s' = initial_state]
  by simp






text \<open>
  C10, as the spec states it, fails: \<^verbatim>\<open>fetch\<close> fulfils for both URLs with a response
  that is \<^verbatim>\<open>ok\<close>, the promise of \<^verbatim>\<open>response.json()\<close> rejects with a value that is not
  an \<^verbatim>\<open>Error\<close>, and the component shows \<^verbatim>\<open>Unknown error occurred\<close>.
\<close>

theorem fallback_counterexample:
  "(fetch_json_rejects :: (string, ApiResponse js) fetch) ''http://localhost:3001'' =
     Inr \<lparr>ok = True, status = 200, json = Inl (NonError ''boom'')\<rparr> \<and>
   (fetch_json_rejects :: (string, HealthResponse js) fetch)
     ''http://localhost:3001/api/health'' =
     Inr \<lparr>ok = True, status = 200, json = Inl (NonError ''boom'')\<rparr> \<and>
   fst (testConnection Map.empty
     (fetch_json_rejects :: (string, ApiResponse js) fetch)
     (fetch_json_rejects :: (string, HealthResponse js) fetch) [First, Second]) =
     [''http://localhost:3001'', ''http://localhost:3001/api/health''] \<and>
   apiStatus state_json_rejects = ERROR \<and>
   error state_json_rejects = Some ''Unknown error occurred''"
  by (simp add: fetch_json_rejects_def state_json_rejects_eq testConnection_requests
      getBaseUrl_def)

text \<open>
  C10, amended: every failure that the client constructs, from a response that is not
  \<^verbatim>\<open>ok\<close>, is an \<^verbatim>\<open>Error\<close> with the message \<^verbatim>\<open>HTTP error! status: \<close> and the code, which
  the component shows as it is and which is not \<^verbatim>\<open>Unknown error occurred\<close>. The
  component takes its fallback only when \<^verbatim>\<open>fetch\<close>, or \<^verbatim>\<open>json()\<close> of a response that is
  \<^verbatim>\<open>ok\<close>, rejects with a value that is not an \<^verbatim>\<open>Error\<close>; and it shows the text of the
  fallback only then, or when one of the two rejects with an \<^verbatim>\<open>Error\<close> that carries
  this very text: never after the client's check of the status.
\<close>

theorem fallback_only_non_error:
  "(snd (testConnection e f f' sched) = Some (Inl (NonError v)) \<longrightarrow>
      f (getBaseUrl e) = Inl (NonError v) \<or>
      (\<exists>r. f (getBaseUrl e) = Inr r \<and> ok r \<and> json r = Inl (NonError v)) \<or>
      f' (getBaseUrl e @ ''/api/health'') = Inl (NonError v) \<or>
      (\<exists>r. f' (getBaseUrl e @ ''/api/health'') = Inr r \<and> ok r \<and> json r = Inl (NonError v))) \<and>
   (error (testApiConnection (snd (testConnection e f f' sched)) s) =
      Some ''Unknown error occurred'' \<longrightarrow>
      (\<exists>t. (t = Error ''Unknown error occurred'' \<or> (\<exists>w. t = NonError w)) \<and>
         (f (getBaseUrl e) = Inl t \<or>
          (\<exists>r. f (getBaseUrl e) = Inr r \<and> ok r \<and> json r = Inl t) \<or>
          f' (getBaseUrl e @ ''/api/health'') = Inl t \<or>
          (\<exists>r. f' (getBaseUrl e @ ''/api/health'') = Inr r \<and> ok r \<and> json r = Inl t)))) \<and>
   (f (getBaseUrl e) = Inr r \<and> \<not> ok r \<longrightarrow>
      snd (getApiInfo e f) =
        Inl (Error (''HTTP error! status: '' @ show_nat (Response.status r))) \<and>
      error (testApiConnection
        (Some (Inl (Error (''HTTP error! status: '' @ show_nat (Response.status r))) ::
           'v settlement)) s) =
        Some (''HTTP error! status: '' @ show_nat (Response.status r)) \<and>
      ''HTTP error! status: '' @ show_nat (Response.status r) \<noteq> ''Unknown error occurred'') \<and>
   (f' (getBaseUrl e @ ''/api/health'') = Inr r' \<and> \<not> ok r' \<longrightarrow>
      snd (getHealthCheck e f') =
        Inl (Error (''HTTP error! status: '' @ show_nat (Response.status r'))) \<and>
      error (testApiConnection
        (Some (Inl (Error (''HTTP error! status: '' @ show_nat (Response.status r'))) ::
           'v settlement)) s) =
        Some (''HTTP error! status: '' @ show_nat (Response.status r')) \<and>
      ''HTTP error! status: '' @ show_nat (Response.status r') \<noteq> ''Unknown error occurred'')"
proof (intro conjI impI)
  assume "snd (testConnection e f f' sched) = Some (Inl (NonError v))"
  then have "snd (getApiInfo e f) = Inl (NonError v) \<or> snd (getHealthCheck e f') = Inl (NonError v)"
    by (rule testConnection_rejected)
  then show "f (getBaseUrl e) = Inl (NonError v) \<or>
      (\<exists>r. f (getBaseUrl e) = Inr r \<and> ok r \<and> json r = Inl (NonError v)) \<or>
      f' (getBaseUrl e @ ''/api/health'') = Inl (NonError v) \<or>
      (\<exists>r. f' (getBaseUrl e @ ''/api/health'') = Inr r \<and> ok r \<and> json r = Inl (NonError v))"
    using getApiInfo_rejected [of e f "NonError v"] getHealthCheck_rejected [of e f' "NonError v"]
    by auto
next
  assume "error (testApiConnection (snd (testConnection e f f' sched)) s) =
      Some ''Unknown error occurred''"
  then have "snd (testConnection e f f' sched) = Some (Inl (Error ''Unknown error occurred'')) \<or>
      (\<exists>w. snd (testConnection e f f' sched) = Some (Inl (NonError w)))"
    by (rule fallback_shown)
  then obtain t where t: "t = Error ''Unknown error occurred'' \<or> (\<exists>w. t = NonError w)"
    and rej: "snd (testConnection e f f' sched) = Some (Inl t)"
    by auto
  from rej have "snd (getApiInfo e f) = Inl t \<or> snd (getHealthCheck e f') = Inl t"
    by (rule testConnection_rejected)
  with t have "f (getBaseUrl e) = Inl t \<or>
      (\<exists>r. f (getBaseUrl e) = Inr r \<and> ok r \<and> json r = Inl t) \<or>
      f' (getBaseUrl e @ ''/api/health'') = Inl t \<or>
      (\<exists>r. f' (getBaseUrl e @ ''/api/health'') = Inr r \<and> ok r \<and> json r = Inl t)"
    using getApiInfo_rejected [of e f t] getHealthCheck_rejected [of e f' t]
      http_message_not_fallback
    by auto
  with t show "\<exists>t. (t = Error ''Unknown error occurred'' \<or> (\<exists>w. t = NonError w)) \<and>
         (f (getBaseUrl e) = Inl t \<or>
          (\<exists>r. f (getBaseUrl e) = Inr r \<and> ok r \<and> json r = Inl t) \<or>
          f' (getBaseUrl e @ ''/api/health'') = Inl t \<or>
          (\<exists>r. f' (getBaseUrl e @ ''/api/health'') = Inr r \<and> ok r \<and> json r = Inl t))"
    by blast
next
  assume "f (getBaseUrl e) = Inr r \<and> \<not> ok r"
  then show "snd (getApiInfo e f) =
      Inl (Error (''HTTP error! status: '' @ show_nat (Response.status r)))"
    by (simp add: getApiInfo_settles)
next
  show "error (testApiConnection
      (Some (Inl (Error (''HTTP error! status: '' @ show_nat (Response.status r))) ::
         'v settlement)) s) =
      Some (''HTTP error! status: '' @ show_nat (Response.status r))"
    by (simp add: testApiConnection_def testApiConnection_settle_def)
next
  show "''HTTP error! status: '' @ show_nat (Response.status r) \<noteq> ''Unknown error occurred''"
    by (rule http_message_not_fallback)
next
  assume "f' (getBaseUrl e @ ''/api/health'') = Inr r' \<and> \<not> ok r'"
  then show "snd (getHealthCheck e f') =
      Inl (Error (''HTTP error! status: '' @ show_nat (Response.status r')))"
    by (simp add: getHealthCheck_settles)
next
  show "error (testApiConnection
      (Some (Inl (Error (''HTTP error! status: '' @ show_nat (Response.status r'))) ::
         'v settlement)) s) =
      Some (''HTTP error! status: '' @ show_nat (Response.status r'))"
    by (simp add: testApiConnection_def testApiConnection_settle_def)
next
  show "''HTTP error! status: '' @ show_nat (Response.status r') \<noteq> ''Unknown error occurred''"
    by (rule http_message_not_fallback)
qed

theorem fallback_only_non_error_witness:
  "error state_json_rejects = Some ''Unknown error occurred'' \<and>
   snd (getApiInfo Map.empty (fetch_500_503 :: (unit, ApiResponse js) fetch)) =
     Inl (Error ''HTTP error! status: 500'') \<and>
   (\<exists>t. (t = Error ''Unknown error occurred'' \<or> (\<exists>w. t = NonError w)) \<and>
      ((fetch_json_rejects :: (string, ApiResponse js) fetch) ''http://localhost:3001'' = Inl t \<or>
       (\<exists>r. (fetch_json_rejects :: (string, ApiResponse js) fetch) ''http://localhost:3001'' =
              Inr r \<and> ok r \<and> json r = Inl t) \<or>
       (fetch_json_rejects :: (string, HealthResponse js) fetch)
          ''http://localhost:3001/api/health'' = Inl t \<or>
       (\<exists>r. (fetch_json_rejects :: (string, HealthResponse js) fetch)
          ''http://localhost:3001/api/health'' = Inr r \<and> ok r \<and> json r = Inl t)))"
proof -
  have shown: "error (testApiConnection
      (snd (testConnection Map.empty
         (fetch_json_rejects :: (string, ApiResponse js) fetch)
         (fetch_json_rejects :: (string, HealthResponse js) fetch) [First, Second]))
      initial_state) = Some ''Unknown error occurred''"
    using state_json_rejects_eq by (simp add: state_json_rejects_def)
  have url: "getBaseUrl Map.empty = ''http://localhost:3001''"
    by (simp add: getBaseUrl_def)
  note only = fallback_only_non_error
    [where e = Map.empty and sched = "[First, Second]" and s = initial_state
       and f = "fetch_json_rejects :: (string, ApiResponse js) fetch"
       and f' = "fetch_json_rejects :: (string, HealthResponse js) fetch"]
  from only shown
  have only_rejected: "\<exists>t. (t = Error ''Unknown error occurred'' \<or> (\<exists>w. t = NonError w)) \<and>
      ((fetch_json_rejects :: (string, ApiResponse js) fetch) (getBaseUrl Map.empty) = Inl t \<or>
       (\<exists>r. (fetch_json_rejects :: (string, ApiResponse js) fetch) (getBaseUrl Map.empty) =
              Inr r \<and> ok r \<and> json r = Inl t) \<or>
       (fetch_json_rejects :: (string, HealthResponse js) fetch)
          (getBaseUrl Map.empty @ ''/api/health'') = Inl t \<or>
       (\<exists>r. (fetch_json_rejects :: (string, HealthResponse js) fetch)
          (getBaseUrl Map.empty @ ''/api/health'') = Inr r \<and> ok r \<and> json r = Inl t))"
    by blast
  have "(fetch_500_503 :: (unit, ApiResponse js) fetch) (getBaseUrl Map.empty) =
      Inr \<lparr>ok = False, status = 500, json = Inl (Error ''response.json is not a function'')\<rparr>"
    by (simp add: fetch_500_503_def url)
  moreover
  have "\<not> ok \<lparr>ok = False, status = 500,
      json = (Inl (Error ''response.json is not a function'') :: unit thrown + ApiResponse js)\<rparr>"
    by simp
  moreover
  note fallback_only_non_error
    [where e = Map.empty and f = "fetch_500_503 :: (unit, ApiResponse js) fetch"
       and r = "\<lparr>ok = False, status = 500, json = Inl (Error ''response.json is not a function'')\<rparr>"
       and f' = fetch_health and sched = "[First, Second]" and s = initial_state
       and r' = "\<lparr>ok = True, status = 200, json = Inr (JObj mock_health)\<rparr>"
       and v = "()"]
  ultimately
  have "snd (getApiInfo Map.empty (fetch_500_503 :: (unit, ApiResponse js) fetch)) =
      Inl (Error (''HTTP error! status: '' @ show_nat (Response.status
        \<lparr>ok = False, status = 500,
         json = (Inl (Error ''response.json is not a function'') ::
           unit thrown + ApiResponse js)\<rparr>)))"
    by blast
  with only_rejected show ?thesis
    by (simp add: url state_json_rejects_eq show_nat_500)
qed

end
